theory Spec2Isabelle
  imports Main "HOL-Library.AList"
begin

section \<open>Documents and the store\<close>

text \<open>
  The two route files (\<^verbatim>\<open>routes/task.js\<close> and the users router) keep two collections,
  Users and Tasks, and a reference in both directions: a Task names its owner in
  \<^verbatim>\<open>assignedUser\<close>, a User lists its Tasks in \<^verbatim>\<open>pendingTasks\<close>.

  A collection is an association list from \<^verbatim>\<open>_id\<close> to document, in insertion order.
  An \<^verbatim>\<open>_id\<close> is an ObjectId, kept as the text it prints as. The routes hand the store
  the strings of the request: wherever the store takes an \<^verbatim>\<open>_id\<close> (\<^verbatim>\<open>findById\<close>,
  \<^verbatim>\<open>findByIdAndUpdate\<close>, a filter on \<^verbatim>\<open>_id\<close>) it first casts the string to an
  ObjectId, and a string that cannot be cast makes the call throw; \<^verbatim>\<open>assignedUser\<close> and
  the entries of \<^verbatim>\<open>pendingTasks\<close> are strings and are compared as they are written.

  Every handler is a function from the store to a response and the store it leaves
  behind. A store call throws only for the reasons written out here: a failed cast, a
  failed validation, a duplicate \<^verbatim>\<open>_id\<close>. Requests do not interleave.
\<close>

type_synonym oid = string

text \<open>
  What the routes use of Mongoose and is not in the sources:
  \<^item> \<open>isValidObjectId\<close> is \<^verbatim>\<open>mongoose.Types.ObjectId.isValid\<close>;
  \<^item> \<open>castId\<close> is the cast of a string to an ObjectId, \<^const>\<open>None\<close> when it throws
    (\<^verbatim>\<open>CastError\<close>), and otherwise the text the ObjectId prints as;
  \<^item> \<open>castDate\<close> is the cast of a string to a Date, \<^const>\<open>None\<close> when it fails.
\<close>

record mongo =
  isValidObjectId :: "string \<Rightarrow> bool"
  castId :: "string \<Rightarrow> oid option"
  castDate :: "string \<Rightarrow> string option"

text \<open>The Task schema of \<^verbatim>\<open>models/task\<close>. \<^verbatim>\<open>completed\<close> is declared as a String.\<close>

record task =
  task_name :: string
  description :: string
  deadline :: string
  completed :: string
  assignedUser :: string
  assignedUserName :: string
  task_dateCreated :: string

text \<open>
  Modelled from the spec: the User schema (\<^verbatim>\<open>models/user\<close>) is not among the sources.
  The spec gives a User a required \<^verbatim>\<open>name\<close>, a required \<^verbatim>\<open>email\<close>, a list
  \<^verbatim>\<open>pendingTasks\<close> of Task ids (default empty), held here as the strings the routes
  write into it, and \<^verbatim>\<open>dateCreated\<close>, defaulted at creation.
\<close>

record user =
  user_name :: string
  user_email :: string
  pendingTasks :: "string list"
  user_dateCreated :: string

record store =
  users :: "(oid \<times> user) list"
  tasks :: "(oid \<times> task) list"

definition emptyStore :: store where
  "emptyStore = \<lparr>users = [], tasks = []\<rparr>"

subsection \<open>Requests and responses\<close>

text \<open>
  A request body holds, for each field the handler destructures, either nothing
  (\<^const>\<open>None\<close>: the field is absent, \<^verbatim>\<open>undefined\<close> or \<^verbatim>\<open>null\<close>) or a value of the
  JSON type the schema declares for it, a date being sent as a string.
  \<^verbatim>\<open>pendingTasks\<close> is inspected with \<^verbatim>\<open>Array.isArray\<close>, so its three shapes are kept
  apart.
\<close>

datatype pending = Missing | NotArray | IdArray "string list"

record task_body =
  req_name :: "string option"
  req_description :: "string option"
  req_deadline :: "string option"
  req_completed :: "bool option"
  req_assignedUser :: "string option"
  req_assignedUserName :: "string option"
  req_dateCreated :: "string option"

record user_body =
  ureq_name :: "string option"
  ureq_email :: "string option"
  ureq_pendingTasks :: pending
  ureq_dateCreated :: "string option"

text \<open>
  The \<^verbatim>\<open>data\<close> of a response. \<open>ErrMessage\<close> is \<^verbatim>\<open>{ error: err.message }\<close>, the text
  of whatever the store threw.
\<close>

datatype 'd data = Doc 'd | Docs "'d list" | Count nat | Error string | ErrMessage

record 'd response =
  status :: nat
  message :: string
  data :: "'d data"

definition reply :: "nat \<Rightarrow> string \<Rightarrow> 'd data \<Rightarrow> 'd response" where
  "reply c m d = \<lparr>status = c, message = m, data = d\<rparr>"

subsection \<open>JavaScript on these values\<close>

text \<open>Truthiness of a string-valued field: absent and the empty string are falsy.\<close>

definition truthy :: "string option \<Rightarrow> bool" where
  "truthy v = (case v of None \<Rightarrow> False | Some s \<Rightarrow> s \<noteq> [])"

text \<open>\<^verbatim>\<open>v || d\<close> on a string-valued field.\<close>

definition orElse :: "string option \<Rightarrow> string \<Rightarrow> string" where
  "orElse v d = (case v of None \<Rightarrow> d | Some s \<Rightarrow> if s \<noteq> [] then s else d)"

text \<open>\<^verbatim>\<open>completed || false\<close>, stored under the schema's String type.\<close>

definition completedOr :: "bool option \<Rightarrow> string" where
  "completedOr v = (if v = Some True then ''true'' else ''false'')"

text \<open>\<^verbatim>\<open>[...new Set(xs)]\<close>: the elements of \<open>xs\<close> in order of first occurrence.\<close>

definition jsSet :: "'a list \<Rightarrow> 'a list" where
  "jsSet xs = rev (remdups (rev xs))"

text \<open>\<^verbatim>\<open>Array.isArray(pendingTasks) ? pendingTasks : []\<close>\<close>

definition arrayOrEmpty :: "pending \<Rightarrow> oid list" where
  "arrayOrEmpty p = (case p of IdArray xs \<Rightarrow> xs | _ \<Rightarrow> [])"

subsection \<open>Store operations\<close>

text \<open>\<^verbatim>\<open>$addToSet\<close> and \<^verbatim>\<open>$pull\<close> on \<^verbatim>\<open>pendingTasks\<close>.\<close>

definition addToSet :: "string \<Rightarrow> user \<Rightarrow> user" where
  "addToSet t u =
     (if t \<in> set (pendingTasks u) then u else u\<lparr>pendingTasks := pendingTasks u @ [t]\<rparr>)"

definition pull :: "string \<Rightarrow> user \<Rightarrow> user" where
  "pull t u = u\<lparr>pendingTasks := filter (\<lambda>x. x \<noteq> t) (pendingTasks u)\<rparr>"

text \<open>\<^verbatim>\<open>{ assignedUser: '', assignedUserName: 'unassigned' }\<close>\<close>

definition unassign :: "task \<Rightarrow> task" where
  "unassign t = t\<lparr>assignedUser := [], assignedUserName := ''unassigned''\<rparr>"

text \<open>\<^verbatim>\<open>{ assignedUser: id, assignedUserName: name }\<close>\<close>

definition assign :: "string \<Rightarrow> string \<Rightarrow> task \<Rightarrow> task" where
  "assign uid n t = t\<lparr>assignedUser := uid, assignedUserName := n\<rparr>"

text \<open>\<^verbatim>\<open>Model.updateMany(filter, update)\<close>: every matching document is updated in place.\<close>

definition updateMany ::
  "(oid \<Rightarrow> 'v \<Rightarrow> bool) \<Rightarrow> ('v \<Rightarrow> 'v) \<Rightarrow> (oid \<times> 'v) list \<Rightarrow> (oid \<times> 'v) list" where
  "updateMany P f xs = map (\<lambda>(k, v). if P k v then (k, f v) else (k, v)) xs"

text \<open>
  The operand of \<^verbatim>\<open>{ _id: { $in: [...] } }\<close>: every entry is cast, and one entry that
  cannot be cast makes the call throw.
\<close>

definition castIds :: "mongo \<Rightarrow> string list \<Rightarrow> oid list option" where
  "castIds M xs = those (map (castId M) xs)"

text \<open>
  \<^verbatim>\<open>doc.save()\<close> of a new document: the collection's unique index on \<^verbatim>\<open>_id\<close>
  refuses an id that is already there.
\<close>

definition insertDoc :: "oid \<Rightarrow> 'v \<Rightarrow> (oid \<times> 'v) list \<Rightarrow> (oid \<times> 'v) list option" where
  "insertDoc k v xs = (if map_of xs k = None then Some (xs @ [(k, v)]) else None)"

text \<open>
  \<^verbatim>\<open>dateCreated\<close> of a replacement: the payload's when it is truthy, which then has to
  be a date, and the schema's default \<^verbatim>\<open>Date.now\<close> otherwise.
\<close>

definition dateOrNow :: "mongo \<Rightarrow> string \<Rightarrow> string option \<Rightarrow> string option" where
  "dateOrNow M now v = (if truthy v then castDate M (the v) else Some now)"

section \<open>The Users router\<close>

text \<open>
  Modelled from the spec: the validators of the User schema, which is not among the
  sources. The spec gives \<^verbatim>\<open>name\<close> and \<^verbatim>\<open>email\<close> as the required fields of a User; a
  required string has to be present and not empty.
\<close>

definition userValid :: "string option \<Rightarrow> string option \<Rightarrow> bool" where
  "userValid n e = (truthy n \<and> truthy e)"

text \<open>
  \<^verbatim>\<open>POST /users\<close>. \<open>newId\<close> is the \<^verbatim>\<open>_id\<close> that \<^verbatim>\<open>new User\<close> generates and \<open>now\<close>
  the creation time. The only error path is the \<^verbatim>\<open>catch\<close>, which answers 500.
\<close>

definition postUsers ::
  "oid \<Rightarrow> string \<Rightarrow> user_body \<Rightarrow> store \<Rightarrow> (oid \<times> user) response \<times> store" where
  "postUsers newId now b s =
     (let u = \<lparr>user_name = orElse (ureq_name b) [], user_email = orElse (ureq_email b) [],
               pendingTasks = arrayOrEmpty (ureq_pendingTasks b),
               user_dateCreated = now\<rparr>
      in if \<not> userValid (ureq_name b) (ureq_email b)
         then (reply 500 ''Failed to create user'' (Error ''Failed to create user''), s)
         else (case insertDoc newId u (users s) of
                 None \<Rightarrow> (reply 500 ''Failed to create user'' (Error ''Failed to create user''), s)
               | Some us \<Rightarrow> (reply 201 ''User created'' (Doc (newId, u)), s\<lparr>users := us\<rparr>)))"

text \<open>
  The \<^verbatim>\<open>replacement\<close> object of \<^verbatim>\<open>PUT /users/:id\<close> as
  \<^verbatim>\<open>findByIdAndUpdate(.., {runValidators: true, overwrite: true})\<close> stores it, or
  \<^const>\<open>None\<close> when the validators or the cast of \<^verbatim>\<open>dateCreated\<close> refuse it.
\<close>

definition replacementUser ::
  "mongo \<Rightarrow> string \<Rightarrow> string \<Rightarrow> string \<Rightarrow> user_body \<Rightarrow> user option" where
  "replacementUser M now n e b =
     (if \<not> userValid (Some n) (Some e) then None
      else case dateOrNow M now (ureq_dateCreated b) of
             None \<Rightarrow> None
           | Some d \<Rightarrow> Some \<lparr>user_name = n, user_email = e,
                              pendingTasks = arrayOrEmpty (ureq_pendingTasks b),
                              user_dateCreated = d\<rparr>)"

text \<open>
  \<^verbatim>\<open>PUT /users/:id\<close>. Everything after the two early returns runs inside the
  \<^verbatim>\<open>try\<close>, whose \<^verbatim>\<open>catch\<close> answers 400 with the store as the calls before the throw
  left it. The two bulk updates of the Tasks run before the User is replaced; the second
  writes the id as the request spells it.
\<close>

definition putUsers ::
  "mongo \<Rightarrow> string \<Rightarrow> string \<Rightarrow> user_body \<Rightarrow> store \<Rightarrow> (oid \<times> user) response \<times> store" where
  "putUsers M uid now b s =
     (if \<not> isValidObjectId M uid
      then (reply 400 ''Invalid user id'' (Error ''Invalid user id''), s)
      else case (ureq_name b, ureq_email b) of
        (Some n, Some e) \<Rightarrow>
          (case castId M uid of
             None \<Rightarrow> (reply 400 ''Failed to update user'' ErrMessage, s)
           | Some k \<Rightarrow>
          (case map_of (users s) k of
             None \<Rightarrow> (reply 404 ''User not found'' (Error ''User not found''), s)
           | Some existingUser \<Rightarrow>
               (let oldTasks = jsSet (pendingTasks existingUser);
                    newTasks = jsSet (arrayOrEmpty (ureq_pendingTasks b));
                    tasksToUnassign = filter (\<lambda>taskId. taskId \<notin> set newTasks) oldTasks;
                    tasksToAssign = filter (\<lambda>taskId. taskId \<notin> set oldTasks) newTasks
                in case castIds M tasksToUnassign of
                     None \<Rightarrow> (reply 400 ''Failed to update user'' ErrMessage, s)
                   | Some us \<Rightarrow>
                (let s1 = s\<lparr>tasks := updateMany (\<lambda>t _. t \<in> set us) unassign (tasks s)\<rparr>
                 in case castIds M tasksToAssign of
                      None \<Rightarrow> (reply 400 ''Failed to update user'' ErrMessage, s1)
                    | Some as \<Rightarrow>
                 (let s2 = s1\<lparr>tasks := updateMany (\<lambda>t _. t \<in> set as) (assign uid n) (tasks s1)\<rparr>
                  in case replacementUser M now n e b of
                       None \<Rightarrow> (reply 400 ''Failed to update user'' ErrMessage, s2)
                     | Some replacement \<Rightarrow>
                         (reply 200 ''User updated'' (Doc (k, replacement)),
                          s2\<lparr>users := AList.map_entry k (\<lambda>_. replacement) (users s2)\<rparr>))))))
      | _ \<Rightarrow> (reply 400 ''Payload must include name and email''
                (Error ''Payload must include name and email''), s))"

text \<open>
  \<^verbatim>\<open>DELETE /users/:id\<close>, in its two store steps: the bulk update of the Tasks whose
  \<^verbatim>\<open>assignedUser\<close> is the string of the request, then the deletion of the User document
  that \<^verbatim>\<open>findById\<close> found. The \<^verbatim>\<open>catch\<close> answers 500.
\<close>

definition unassignAllOf :: "string \<Rightarrow> store \<Rightarrow> store" where
  "unassignAllOf uid s = s\<lparr>tasks := updateMany (\<lambda>_ t. assignedUser t = uid) unassign (tasks s)\<rparr>"

definition deleteUserDoc :: "oid \<Rightarrow> store \<Rightarrow> store" where
  "deleteUserDoc k s = s\<lparr>users := AList.delete k (users s)\<rparr>"

definition deleteUsers ::
  "mongo \<Rightarrow> string \<Rightarrow> store \<Rightarrow> (oid \<times> user) response \<times> store" where
  "deleteUsers M uid s =
     (if \<not> isValidObjectId M uid
      then (reply 400 ''Invalid user id'' (Error ''Invalid user id''), s)
      else case castId M uid of
             None \<Rightarrow> (reply 500 ''Failed to delete user'' (Error ''Failed to delete user''), s)
           | Some k \<Rightarrow>
          (case map_of (users s) k of
             None \<Rightarrow> (reply 404 ''User not found'' (Error ''User not found''), s)
           | Some deleted \<Rightarrow>
               (reply 200 ''User deleted'' (Doc (k, deleted)),
                deleteUserDoc k (unassignAllOf uid s))))"

section \<open>The Tasks router\<close>

text \<open>
  \<^verbatim>\<open>new Task({...})\<close> in \<^verbatim>\<open>POST /tasks\<close>, with the schema's default for
  \<^verbatim>\<open>dateCreated\<close>, as \<^verbatim>\<open>save()\<close> validates it: \<^const>\<open>None\<close> when a required path is
  missing or the \<^verbatim>\<open>deadline\<close> is not a date.
\<close>

definition newTask :: "mongo \<Rightarrow> string \<Rightarrow> task_body \<Rightarrow> task option" where
  "newTask M now b =
     (if truthy (req_name b) \<and> truthy (req_deadline b)
      then case castDate M (the (req_deadline b)) of
             None \<Rightarrow> None
           | Some d \<Rightarrow>
               Some \<lparr>task_name = the (req_name b),
                     description = orElse (req_description b) [],
                     deadline = d,
                     completed = completedOr (req_completed b),
                     assignedUser = orElse (req_assignedUser b) [],
                     assignedUserName = orElse (req_assignedUserName b) ''unassigned'',
                     task_dateCreated = now\<rparr>
      else None)"

text \<open>
  The \<^verbatim>\<open>replacement\<close> object of \<^verbatim>\<open>PUT /tasks/:id\<close> as
  \<^verbatim>\<open>findByIdAndUpdate(.., {runValidators: true, overwrite: true})\<close> stores it, or
  \<^const>\<open>None\<close> when it is refused.
\<close>

definition replacementTask :: "mongo \<Rightarrow> string \<Rightarrow> task_body \<Rightarrow> task option" where
  "replacementTask M now b =
     (if truthy (req_name b) \<and> truthy (req_deadline b)
      then case (castDate M (the (req_deadline b)), dateOrNow M now (req_dateCreated b)) of
             (Some d, Some c) \<Rightarrow>
               Some \<lparr>task_name = the (req_name b),
                     description = orElse (req_description b) [],
                     deadline = d,
                     completed = completedOr (req_completed b),
                     assignedUser = orElse (req_assignedUser b) [],
                     assignedUserName = orElse (req_assignedUserName b) ''unassigned'',
                     task_dateCreated = c\<rparr>
           | _ \<Rightarrow> None
      else None)"

text \<open>\<^verbatim>\<open>await task.save()\<close> and the answer that follows it; a refusal is the \<^verbatim>\<open>catch\<close>.\<close>

definition saveTask ::
  "mongo \<Rightarrow> oid \<Rightarrow> string \<Rightarrow> task_body \<Rightarrow> store \<Rightarrow> (oid \<times> task) response \<times> store" where
  "saveTask M newId now b s =
     (case newTask M now b of
        None \<Rightarrow> (reply 500 ''Failed to create task'' (Error ''Failed to create task''), s)
      | Some t \<Rightarrow>
          (case insertDoc newId t (tasks s) of
             None \<Rightarrow> (reply 500 ''Failed to create task'' (Error ''Failed to create task''), s)
           | Some ts \<Rightarrow> (reply 201 ''Task created'' (Doc (newId, t)), s\<lparr>tasks := ts\<rparr>)))"

text \<open>
  \<^verbatim>\<open>POST /tasks\<close>. \<open>newId\<close> is the \<^verbatim>\<open>_id\<close> that \<^verbatim>\<open>new Task\<close> generates and \<open>now\<close>
  the creation time. The owner is looked up by the cast of the payload's string, and
  its \<^verbatim>\<open>pendingTasks\<close> is extended before the Task is saved. The \<^verbatim>\<open>catch\<close> answers
  500.
\<close>

definition postTasks ::
  "mongo \<Rightarrow> oid \<Rightarrow> string \<Rightarrow> task_body \<Rightarrow> store \<Rightarrow> (oid \<times> task) response \<times> store" where
  "postTasks M newId now b s =
     (if \<not> truthy (req_name b) \<or> \<not> truthy (req_deadline b)
      then (reply 400 ''Missing required fields'' (Error ''Name and deadline are required''), s)
      else if truthy (req_assignedUser b)
      then (case castId M (the (req_assignedUser b)) of
              None \<Rightarrow> (reply 500 ''Failed to create task'' (Error ''Failed to create task''), s)
            | Some a \<Rightarrow>
           (case map_of (users s) a of
              None \<Rightarrow> (reply 400 ''Invalid assigned user''
                        (Error ''Assigned user does not exist''), s)
            | Some _ \<Rightarrow>
                saveTask M newId now b
                  (s\<lparr>users := AList.map_entry a (addToSet newId) (users s)\<rparr>)))
      else saveTask M newId now b s)"

text \<open>
  \<^verbatim>\<open>Task.findByIdAndUpdate(id, replacement, {runValidators: true, overwrite: true})\<close>
  and the answer that follows it; a refusal is the \<^verbatim>\<open>catch\<close>, which answers 400.
\<close>

definition updateTask ::
  "mongo \<Rightarrow> oid \<Rightarrow> string \<Rightarrow> task_body \<Rightarrow> store \<Rightarrow> (oid \<times> task) response \<times> store" where
  "updateTask M k now b s =
     (case replacementTask M now b of
        None \<Rightarrow> (reply 400 ''Failed to update task'' ErrMessage, s)
      | Some replacement \<Rightarrow>
          (reply 200 ''Task updated'' (Doc (k, replacement)),
           s\<lparr>tasks := AList.map_entry k (\<lambda>_. replacement) (tasks s)\<rparr>))"

text \<open>
  \<^verbatim>\<open>User.findByIdAndUpdate(owner, { $pull: { pendingTasks: id } })\<close>: the owner is
  cast, the entry is the string of the request. \<^const>\<open>None\<close> when the cast throws.
\<close>

definition pullFrom :: "mongo \<Rightarrow> string \<Rightarrow> string \<Rightarrow> store \<Rightarrow> store option" where
  "pullFrom M owner tid s =
     (case castId M owner of
        None \<Rightarrow> None
      | Some k \<Rightarrow> Some (s\<lparr>users := AList.map_entry k (pull tid) (users s)\<rparr>))"

text \<open>
  \<^verbatim>\<open>PUT /tasks/:id\<close>. When the owner changes, the old owner's list is pulled first;
  only then is the new owner looked up. The \<^verbatim>\<open>catch\<close> answers 400 with the store as
  the calls before the throw left it.
\<close>

definition putTasks ::
  "mongo \<Rightarrow> string \<Rightarrow> string \<Rightarrow> task_body \<Rightarrow> store \<Rightarrow> (oid \<times> task) response \<times> store" where
  "putTasks M tid now b s =
     (if \<not> isValidObjectId M tid
      then (reply 400 ''Invalid task id'' (Error ''Invalid task id''), s)
      else case castId M tid of
        None \<Rightarrow> (reply 400 ''Failed to update task'' ErrMessage, s)
      | Some k \<Rightarrow>
     (case map_of (tasks s) k of
        None \<Rightarrow> (reply 404 ''Task not found'' (Error ''Task not found''), s)
      | Some existingTask \<Rightarrow>
          if Some (assignedUser existingTask) \<noteq> req_assignedUser b
          then
            (case (if assignedUser existingTask \<noteq> []
                   then pullFrom M (assignedUser existingTask) tid s
                   else Some s) of
               None \<Rightarrow> (reply 400 ''Failed to update task'' ErrMessage, s)
             | Some s1 \<Rightarrow>
                 if truthy (req_assignedUser b)
                 then (case castId M (the (req_assignedUser b)) of
                         None \<Rightarrow> (reply 400 ''Failed to update task'' ErrMessage, s1)
                       | Some a \<Rightarrow>
                      (case map_of (users s1) a of
                         None \<Rightarrow> (reply 400 ''Invalid assigned user''
                                   (Error ''Assigned user does not exist''), s1)
                       | Some _ \<Rightarrow>
                           updateTask M k now b
                             (s1\<lparr>users := AList.map_entry a (addToSet tid) (users s1)\<rparr>)))
                 else updateTask M k now b s1)
          else updateTask M k now b s))"

text \<open>\<^verbatim>\<open>DELETE /tasks/:id\<close>. The \<^verbatim>\<open>catch\<close> answers 500.\<close>

definition deleteTasks ::
  "mongo \<Rightarrow> string \<Rightarrow> store \<Rightarrow> (oid \<times> task) response \<times> store" where
  "deleteTasks M tid s =
     (if \<not> isValidObjectId M tid
      then (reply 400 ''Invalid task id'' (Error ''Invalid task id''), s)
      else case castId M tid of
        None \<Rightarrow> (reply 500 ''Failed to delete task'' (Error ''Failed to delete task''), s)
      | Some k \<Rightarrow>
     (case map_of (tasks s) k of
        None \<Rightarrow> (reply 404 ''Task not found'' (Error ''Task not found''), s)
      | Some deleted \<Rightarrow>
          (case (if assignedUser deleted \<noteq> []
                 then pullFrom M (assignedUser deleted) tid s
                 else Some s) of
             None \<Rightarrow> (reply 500 ''Failed to delete task'' (Error ''Failed to delete task''), s)
           | Some s1 \<Rightarrow>
               (reply 200 ''Task deleted'' (Doc (k, deleted)),
                s1\<lparr>tasks := AList.delete k (tasks s1)\<rparr>))))"

section \<open>The list endpoints\<close>

text \<open>
  \<^verbatim>\<open>GET /tasks\<close> and \<^verbatim>\<open>GET /users\<close> read their query parameters in the same order
  (\<^verbatim>\<open>where\<close>, \<^verbatim>\<open>select\<close>, \<^verbatim>\<open>sort\<close>, \<^verbatim>\<open>skip\<close>, \<^verbatim>\<open>limit\<close>, \<^verbatim>\<open>count\<close>) and build
  a query from them. What JavaScript and the store do with a parameter's text is not in
  the routes and is taken as given:
  \<^item> \<open>parseJSON\<close> is \<^verbatim>\<open>JSON.parse\<close>, with \<^const>\<open>None\<close> when it throws;
  \<^item> \<open>toNumber\<close> is \<^verbatim>\<open>Number(...)\<close>, read as far as \<^verbatim>\<open>Number.isInteger\<close> and
    \<^verbatim>\<open>< 0\<close> look at it;
  \<^item> \<open>matches\<close>, \<open>selectDoc\<close> and \<open>sortDocs\<close> are the store's meaning of a filter, a
    projection and a sort order.
\<close>

datatype jsnum = JInt int | NotInteger

record ('j, 'd) engine =
  parseJSON :: "string \<Rightarrow> 'j option"
  toNumber :: "string \<Rightarrow> jsnum"
  matches :: "'j \<Rightarrow> 'd \<Rightarrow> bool"
  selectDoc :: "'j \<Rightarrow> 'd \<Rightarrow> 'd"
  sortDocs :: "'j \<Rightarrow> 'd list \<Rightarrow> 'd list"


text \<open>The query being built: \<^verbatim>\<open>Model.find(filter).select(..).sort(..).skip(..).limit(..)\<close>.\<close>

record 'j query =
  d_filter :: "'j option"
  d_select :: "'j option"
  d_sort :: "'j option"
  d_skip :: "nat option"
  d_limit :: "nat option"




text \<open>The stages of running a query on a collection. The empty filter matches all.\<close>

definition matching :: "('j, 'd) engine \<Rightarrow> 'j query \<Rightarrow> 'd list \<Rightarrow> 'd list" where
  "matching E d docs =
     filter (\<lambda>x. case d_filter d of None \<Rightarrow> True | Some j \<Rightarrow> matches E j x) docs"

definition sorted_skipped :: "('j, 'd) engine \<Rightarrow> 'j query \<Rightarrow> 'd list \<Rightarrow> 'd list" where
  "sorted_skipped E d xs =
     (let ys = (case d_sort d of None \<Rightarrow> xs | Some j \<Rightarrow> sortDocs E j xs)
      in case d_skip d of None \<Rightarrow> ys | Some k \<Rightarrow> drop k ys)"


definition selected :: "('j, 'd) engine \<Rightarrow> 'j query \<Rightarrow> 'd list \<Rightarrow> 'd list" where
  "selected E d xs = (case d_select d of None \<Rightarrow> xs | Some j \<Rightarrow> map (selectDoc E j) xs)"




section \<open>Sequences of requests\<close>

text \<open>The six writing requests, each with what its handler is given besides the store.\<close>

datatype request =
    PostUsers oid string user_body
  | PutUsers string string user_body
  | DeleteUsers string
  | PostTasks oid string task_body
  | PutTasks string string task_body
  | DeleteTasks string

definition handle :: "mongo \<Rightarrow> request \<Rightarrow> store \<Rightarrow> nat \<times> store" where
  "handle M r s =
     (case r of
        PostUsers newId now b \<Rightarrow> (let (x, s') = postUsers newId now b s in (status x, s'))
      | PutUsers uid now b \<Rightarrow> (let (x, s') = putUsers M uid now b s in (status x, s'))
      | DeleteUsers uid \<Rightarrow> (let (x, s') = deleteUsers M uid s in (status x, s'))
      | PostTasks newId now b \<Rightarrow> (let (x, s') = postTasks M newId now b s in (status x, s'))
      | PutTasks tid now b \<Rightarrow> (let (x, s') = putTasks M tid now b s in (status x, s'))
      | DeleteTasks tid \<Rightarrow> (let (x, s') = deleteTasks M tid s in (status x, s')))"

text \<open>The status codes of a sequence of requests, in order, and the store after the last.\<close>

fun run :: "mongo \<Rightarrow> request list \<Rightarrow> store \<Rightarrow> nat list \<times> store" where
  "run M [] s = ([], s)"
| "run M (r # rs) s =
     (let (c, s1) = handle M r s;
          (cs, s2) = run M rs s1
      in (c # cs, s2))"

section \<open>The invariants of the relationship\<close>

text \<open>I1: an assigned Task names an existing User whose list holds the Task's id.\<close>

definition ownerListsTask :: "store \<Rightarrow> bool" where
  "ownerListsTask s =
     list_all (\<lambda>(tid, t).
        assignedUser t = [] \<or>
        (case map_of (users s) (assignedUser t) of
           None \<Rightarrow> False
         | Some u \<Rightarrow> tid \<in> set (pendingTasks u)))
       (tasks s)"

text \<open>The converse: a listed id is the id of a Task that names the listing User.\<close>

definition listedTaskOwned :: "store \<Rightarrow> bool" where
  "listedTaskOwned s =
     list_all (\<lambda>(uid, u).
        list_all (\<lambda>tid. case map_of (tasks s) tid of
                          None \<Rightarrow> False
                        | Some t \<Rightarrow> assignedUser t = uid)
          (pendingTasks u))
       (users s)"

definition consistent :: "store \<Rightarrow> bool" where
  "consistent s = (ownerListsTask s \<and> listedTaskOwned s)"

text \<open>I4: the Users whose list holds a given Task id are at most one.\<close>

definition listers :: "store \<Rightarrow> oid \<Rightarrow> oid list" where
  "listers s tid = map fst (filter (\<lambda>(uid, u). tid \<in> set (pendingTasks u)) (users s))"

definition uniqueOwnership :: "store \<Rightarrow> bool" where
  "uniqueOwnership s =
     list_all (\<lambda>(uid, u). list_all (\<lambda>tid. length (listers s tid) \<le> 1) (pendingTasks u))
       (users s)"

text \<open>I2: an unassigned Task carries the name \<^verbatim>\<open>unassigned\<close> and is in no User's list.\<close>

definition unlisted :: "store \<Rightarrow> oid \<Rightarrow> bool" where
  "unlisted s tid = list_all (\<lambda>(uid, u). tid \<notin> set (pendingTasks u)) (users s)"

definition unassignedShape :: "store \<Rightarrow> bool" where
  "unassignedShape s =
     list_all (\<lambda>(tid, t).
        if assignedUser t = []
        then assignedUserName t = ''unassigned'' \<and> unlisted s tid
        else True)
       (tasks s)"

text \<open>Ids are unique within a collection, and no User has the empty id.\<close>

definition uniqueIds :: "store \<Rightarrow> bool" where
  "uniqueIds s =
     (distinct (map fst (users s)) \<and> distinct (map fst (tasks s)) \<and> [] \<notin> set (map fst (users s)))"

text \<open>The ids of the Users are the text that they are cast to.\<close>

definition canonicalUsers :: "mongo \<Rightarrow> store \<Rightarrow> bool" where
  "canonicalUsers M s = list_all (\<lambda>(k, u). castId M k = Some k) (users s)"

section \<open>Example data\<close>

text \<open>
  A Mongoose for the examples. An ObjectId is written as 24 hexadecimal digits in either
  case, which \<^verbatim>\<open>ObjectId.isValid\<close> accepts, and prints in lower case; a date is
  written as the ten characters of a calendar day.
\<close>

definition hex24 :: "string \<Rightarrow> bool" where
  "hex24 x = (length x = 24 \<and> list_all (\<lambda>c. c \<in> set ''0123456789abcdefABCDEF'') x)"

definition lowerHex :: "char \<Rightarrow> char" where
  "lowerHex c =
     (if c = CHR ''A'' then CHR ''a'' else if c = CHR ''B'' then CHR ''b''
      else if c = CHR ''C'' then CHR ''c'' else if c = CHR ''D'' then CHR ''d''
      else if c = CHR ''E'' then CHR ''e'' else if c = CHR ''F'' then CHR ''f'' else c)"

definition day :: "string \<Rightarrow> bool" where
  "day x = (length x = 10 \<and> list_all (\<lambda>c. c \<in> set ''0123456789-'') x)"

definition exMongo :: mongo where
  "exMongo = \<lparr>isValidObjectId = hex24,
              castId = (\<lambda>x. if hex24 x then Some (map lowerHex x) else None),
              castDate = (\<lambda>x. if day x then Some x else None)\<rparr>"

definition idAnn :: oid where "idAnn = ''64b000000000000000000a01''"
definition idBob :: oid where "idBob = ''64b000000000000000000a02''"
definition idCat :: oid where "idCat = ''64b000000000000000000a03''"
definition idT1 :: oid where "idT1 = ''64b000000000000000000b01''"
definition idT2 :: oid where "idT2 = ''64b000000000000000000b02''"
definition idT3 :: oid where "idT3 = ''64b000000000000000000b03''"

text \<open>The id of Ann in upper case.\<close>

definition idANN :: string where "idANN = ''64B000000000000000000A01''"

definition ann :: user where
  "ann = \<lparr>user_name = ''Ann'', user_email = ''ann@example.org'', pendingTasks = [idT1],
          user_dateCreated = ''2024-01-01''\<rparr>"

definition bob :: user where
  "bob = \<lparr>user_name = ''Bob'', user_email = ''bob@example.org'', pendingTasks = [],
          user_dateCreated = ''2024-01-02''\<rparr>"

definition report :: task where
  "report = \<lparr>task_name = ''report'', description = [], deadline = ''2024-06-01'',
             completed = ''false'', assignedUser = idAnn, assignedUserName = ''Ann'',
             task_dateCreated = ''2024-01-03''\<rparr>"

definition slides :: task where
  "slides = \<lparr>task_name = ''slides'', description = [], deadline = ''2024-07-01'',
             completed = ''false'', assignedUser = [], assignedUserName = ''unassigned'',
             task_dateCreated = ''2024-01-04''\<rparr>"

text \<open>Ann owns the report, the slides are unassigned, Bob owns nothing.\<close>

definition exStore :: store where
  "exStore = \<lparr>users = [(idAnn, ann), (idBob, bob)], tasks = [(idT1, report), (idT2, slides)]\<rparr>"

definition taskBody :: "string option \<Rightarrow> string option \<Rightarrow> string option \<Rightarrow> task_body" where
  "taskBody n owner ownerName =
     \<lparr>req_name = n, req_description = None, req_deadline = Some ''2024-09-01'',
      req_completed = None, req_assignedUser = owner, req_assignedUserName = ownerName,
      req_dateCreated = None\<rparr>"

definition userBody :: "string option \<Rightarrow> string option \<Rightarrow> pending \<Rightarrow> user_body" where
  "userBody n e p =
     \<lparr>ureq_name = n, ureq_email = e, ureq_pendingTasks = p, ureq_dateCreated = None\<rparr>"






section \<open>Lookups after a store operation\<close>

lemma map_of_updateMany:
  "map_of (updateMany P f xs) k = map_option (\<lambda>v. if P k v then f v else v) (map_of xs k)"
  by (induction xs) (auto simp: updateMany_def)

lemma set_jsSet [simp]: "set (jsSet xs) = set xs"
  by (simp add: jsSet_def)

lemma status_reply [simp]: "status (reply c m d) = c"
  by (simp add: reply_def)

lemma data_reply [simp]: "data (reply c m d) = d"
  by (simp add: reply_def)

lemma orElse_falsy: "\<not> truthy v \<Longrightarrow> orElse v d = d"
  by (auto simp: truthy_def orElse_def split: option.splits)

lemma orElse_truthy: "v = Some n \<Longrightarrow> n \<noteq> [] \<Longrightarrow> orElse v d = n"
  by (simp add: orElse_def)

text \<open>A bulk filter on \<^verbatim>\<open>_id\<close> goes through when every entry can be cast.\<close>

lemma those_map_Some:
  "\<forall>x\<in>set xs. f x \<noteq> None \<Longrightarrow> those (map f xs) = Some (map (\<lambda>x. the (f x)) xs)"
  by (induction xs) auto

lemma castIds_Some:
  "\<forall>x\<in>set xs. castId M x \<noteq> None \<Longrightarrow> castIds M xs = Some (map (\<lambda>x. the (castId M x)) xs)"
  by (simp add: castIds_def those_map_Some)

section \<open>Replacing a User\<close>

text \<open>
  The Tasks after \<^verbatim>\<open>PUT /users/:id\<close> on an existing User when both bulk updates go
  through, whether or not the replacement of the User document is then accepted.
\<close>

lemma putUsers_tasks:
  assumes v: "isValidObjectId M uid" and k: "castId M uid = Some k"
    and n: "ureq_name b = Some n" and e: "ureq_email b = Some e"
    and u: "map_of (users s) k = Some existingUser"
    and c1: "\<forall>x \<in> set (pendingTasks existingUser) - set (arrayOrEmpty (ureq_pendingTasks b)).
               castId M x \<noteq> None"
    and c2: "\<forall>x \<in> set (arrayOrEmpty (ureq_pendingTasks b)) - set (pendingTasks existingUser).
               castId M x \<noteq> None"
  shows "tasks (snd (putUsers M uid now b s)) =
           updateMany
             (\<lambda>t _. \<exists>x \<in> set (arrayOrEmpty (ureq_pendingTasks b)) - set (pendingTasks existingUser).
                       castId M x = Some t)
             (assign uid n)
             (updateMany
                (\<lambda>t _. \<exists>x \<in> set (pendingTasks existingUser) - set (arrayOrEmpty (ureq_pendingTasks b)).
                          castId M x = Some t)
                unassign (tasks s))"
proof -
  let ?old = "jsSet (pendingTasks existingUser)"
  let ?new = "jsSet (arrayOrEmpty (ureq_pendingTasks b))"
  let ?un = "filter (\<lambda>taskId. taskId \<notin> set ?new) ?old"
  let ?as = "filter (\<lambda>taskId. taskId \<notin> set ?old) ?new"
  have un: "castIds M ?un = Some (map (\<lambda>x. the (castId M x)) ?un)"
    using c1 by (intro castIds_Some) auto
  have as: "castIds M ?as = Some (map (\<lambda>x. the (castId M x)) ?as)"
    using c2 by (intro castIds_Some) auto
  have mu: "\<And>t. t \<in> set (map (\<lambda>x. the (castId M x)) ?un) \<longleftrightarrow>
      (\<exists>x \<in> set (pendingTasks existingUser) - set (arrayOrEmpty (ureq_pendingTasks b)).
          castId M x = Some t)"
    using c1 by force
  have ma: "\<And>t. t \<in> set (map (\<lambda>x. the (castId M x)) ?as) \<longleftrightarrow>
      (\<exists>x \<in> set (arrayOrEmpty (ureq_pendingTasks b)) - set (pendingTasks existingUser).
          castId M x = Some t)"
    using c2 by force
  have "tasks (snd (putUsers M uid now b s)) =
          updateMany (\<lambda>t _. t \<in> set (map (\<lambda>x. the (castId M x)) ?as)) (assign uid n)
            (updateMany (\<lambda>t _. t \<in> set (map (\<lambda>x. the (castId M x)) ?un)) unassign (tasks s))"
    using v k n e u un as
    by (simp add: putUsers_def Let_def split: option.splits)
  then show ?thesis
    by (simp only: mu ma)
qed




text \<open>
  C10, as stated, fails. Ann is replaced by a payload that omits \<^verbatim>\<open>pendingTasks\<close>.
  Without a name the answer is 400 before anything is read: the report stays Ann's and
  Ann keeps her list. With an empty name the report is unassigned, the replacement is
  refused by the validators with 400, and Ann keeps her list.
\<close>

theorem putUsers_no_name_keeps_list:
  "isValidObjectId exMongo idAnn \<and> map_of (users exStore) idAnn = Some ann
   \<and> idT1 \<in> set (pendingTasks ann) \<and> map_of (tasks exStore) idT1 = Some report
   \<and> assignedUser report = idAnn
   \<and> putUsers exMongo idAnn ''2024-03-01'' (userBody None (Some ''ann@example.org'') Missing) exStore =
       (reply 400 ''Payload must include name and email''
          (Error ''Payload must include name and email''), exStore)
   \<and> status (fst (putUsers exMongo idAnn ''2024-03-01''
        (userBody (Some []) (Some ''ann@example.org'') Missing) exStore)) = 400
   \<and> map_of (tasks (snd (putUsers exMongo idAnn ''2024-03-01''
        (userBody (Some []) (Some ''ann@example.org'') Missing) exStore))) idT1 =
        Some (report\<lparr>assignedUser := [], assignedUserName := ''unassigned''\<rparr>)
   \<and> map_of (users (snd (putUsers exMongo idAnn ''2024-03-01''
        (userBody (Some []) (Some ''ann@example.org'') Missing) exStore))) idAnn = Some ann"
  by code_simp

text \<open>
  C10, amended. \<^verbatim>\<open>PUT /users/:id\<close> with a valid id of an existing User and a payload
  with a name and an email whose \<^verbatim>\<open>pendingTasks\<close> is missing or is not an array, when
  every entry of the User's list can be cast to an id: every Task whose id is the cast
  of an entry of the list gets \<^verbatim>\<open>assignedUser = ""\<close> and
  \<^verbatim>\<open>assignedUserName = "unassigned"\<close> and the other Tasks are untouched; and when the
  name and the email are not empty and a \<^verbatim>\<open>dateCreated\<close> in the payload is a date, the
  answer is 200 and the stored User has an empty \<^verbatim>\<open>pendingTasks\<close>.
\<close>

theorem putUsers_nonarray:
  assumes "isValidObjectId M uid" and "castId M uid = Some k"
    and "ureq_name b = Some n" and "ureq_email b = Some e"
    and "map_of (users s) k = Some existingUser"
    and "ureq_pendingTasks b = Missing \<or> ureq_pendingTasks b = NotArray"
    and "\<forall>x \<in> set (pendingTasks existingUser). castId M x \<noteq> None"
  shows "(\<forall>tid t. map_of (tasks s) tid = Some t \<longrightarrow>
            map_of (tasks (snd (putUsers M uid now b s))) tid =
              Some (if \<exists>x \<in> set (pendingTasks existingUser). castId M x = Some tid
                    then t\<lparr>assignedUser := [], assignedUserName := ''unassigned''\<rparr> else t))
       \<and> (n \<noteq> [] \<and> e \<noteq> [] \<and>
          (truthy (ureq_dateCreated b) \<longrightarrow> castDate M (the (ureq_dateCreated b)) \<noteq> None) \<longrightarrow>
            status (fst (putUsers M uid now b s)) = 200
          \<and> (\<exists>u. map_of (users (snd (putUsers M uid now b s))) k = Some u
                 \<and> pendingTasks u = [] \<and> user_name u = n \<and> user_email u = e))"
proof -
  have arr: "arrayOrEmpty (ureq_pendingTasks b) = []"
    using assms(6) by (auto simp: arrayOrEmpty_def)
  have c1: "\<forall>x \<in> set (pendingTasks existingUser) - set (arrayOrEmpty (ureq_pendingTasks b)).
               castId M x \<noteq> None"
    and c2: "\<forall>x \<in> set (arrayOrEmpty (ureq_pendingTasks b)) - set (pendingTasks existingUser).
               castId M x \<noteq> None"
    using assms(7) arr by auto
  have t: "\<forall>tid t. map_of (tasks s) tid = Some t \<longrightarrow>
            map_of (tasks (snd (putUsers M uid now b s))) tid =
              Some (if \<exists>x \<in> set (pendingTasks existingUser). castId M x = Some tid
                    then t\<lparr>assignedUser := [], assignedUserName := ''unassigned''\<rparr> else t)"
    by (auto simp: putUsers_tasks [OF assms(1-5) c1 c2] arr map_of_updateMany unassign_def)
  have u: "n \<noteq> [] \<and> e \<noteq> [] \<and>
          (truthy (ureq_dateCreated b) \<longrightarrow> castDate M (the (ureq_dateCreated b)) \<noteq> None) \<longrightarrow>
            status (fst (putUsers M uid now b s)) = 200
          \<and> (\<exists>u. map_of (users (snd (putUsers M uid now b s))) k = Some u
                 \<and> pendingTasks u = [] \<and> user_name u = n \<and> user_email u = e)"
  proof
    assume ok: "n \<noteq> [] \<and> e \<noteq> [] \<and>
          (truthy (ureq_dateCreated b) \<longrightarrow> castDate M (the (ureq_dateCreated b)) \<noteq> None)"
    then obtain d where d: "dateOrNow M now (ureq_dateCreated b) = Some d"
      by (cases "truthy (ureq_dateCreated b)") (auto simp: dateOrNow_def)
    with ok have r: "replacementUser M now n e b =
        Some \<lparr>user_name = n, user_email = e, pendingTasks = [], user_dateCreated = d\<rparr>"
      by (simp add: replacementUser_def userValid_def truthy_def arr)
    have un: "castIds M (filter (\<lambda>taskId. taskId \<notin> set (jsSet [])) (jsSet (pendingTasks existingUser)))
        \<noteq> None"
      using assms(7) by (simp add: castIds_Some)
    have as: "castIds M (filter (\<lambda>taskId. taskId \<notin> set (jsSet (pendingTasks existingUser))) (jsSet []))
        = Some []"
      by (simp add: castIds_def jsSet_def)
    from assms(1-5) arr r un as
    show "status (fst (putUsers M uid now b s)) = 200
          \<and> (\<exists>u. map_of (users (snd (putUsers M uid now b s))) k = Some u
                 \<and> pendingTasks u = [] \<and> user_name u = n \<and> user_email u = e)"
      by (auto simp: putUsers_def Let_def AList.map_of_map_entry split: option.splits)
  qed
  from t u show ?thesis by blast
qed

text \<open>Ann is replaced by a payload whose \<^verbatim>\<open>pendingTasks\<close> is not an array.\<close>

theorem putUsers_nonarray_witness:
  "isValidObjectId exMongo idAnn \<and> castId exMongo idAnn = Some idAnn
   \<and> ureq_pendingTasks (userBody (Some ''Ann'') (Some ''ann@example.org'') NotArray) = NotArray
   \<and> map_of (users exStore) idAnn = Some ann \<and> map_of (tasks exStore) idT1 = Some report
   \<and> pendingTasks ann = [idT1] \<and> castId exMongo idT1 = Some idT1
   \<and> map_of (tasks (snd (putUsers exMongo idAnn ''2024-03-01''
        (userBody (Some ''Ann'') (Some ''ann@example.org'') NotArray) exStore))) idT1 =
        Some (report\<lparr>assignedUser := [], assignedUserName := ''unassigned''\<rparr>)
   \<and> status (fst (putUsers exMongo idAnn ''2024-03-01''
        (userBody (Some ''Ann'') (Some ''ann@example.org'') NotArray) exStore)) = 200
   \<and> (\<exists>u. map_of (users (snd (putUsers exMongo idAnn ''2024-03-01''
        (userBody (Some ''Ann'') (Some ''ann@example.org'') NotArray) exStore))) idAnn = Some u
          \<and> pendingTasks u = [])"
proof -
  let ?b = "userBody (Some ''Ann'') (Some ''ann@example.org'') NotArray"
  have v: "isValidObjectId exMongo idAnn" "castId exMongo idAnn = Some idAnn" by code_simp+
  have b: "ureq_name ?b = Some ''Ann''" "ureq_email ?b = Some ''ann@example.org''"
    by code_simp+
  have p: "ureq_pendingTasks ?b = NotArray" by code_simp
  then have p': "ureq_pendingTasks ?b = Missing \<or> ureq_pendingTasks ?b = NotArray" by simp
  have l: "map_of (users exStore) idAnn = Some ann" "map_of (tasks exStore) idT1 = Some report"
    by code_simp+
  have m: "pendingTasks ann = [idT1]" "castId exMongo idT1 = Some idT1" by code_simp+
  then have c: "\<forall>x \<in> set (pendingTasks ann). castId exMongo x \<noteq> None" by simp
  have ok: "''Ann'' \<noteq> [] \<and> ''ann@example.org'' \<noteq> [] \<and>
      (truthy (ureq_dateCreated ?b) \<longrightarrow> castDate exMongo (the (ureq_dateCreated ?b)) \<noteq> None)"
    by code_simp
  note w = putUsers_nonarray [OF v b l(1) p' c, of "''2024-03-01''"]
  from w l(2) have "map_of (tasks (snd (putUsers exMongo idAnn ''2024-03-01'' ?b exStore))) idT1 =
      Some (if \<exists>x \<in> set (pendingTasks ann). castId exMongo x = Some idT1
            then report\<lparr>assignedUser := [], assignedUserName := ''unassigned''\<rparr> else report)"
    by blast
  with m have 1: "map_of (tasks (snd (putUsers exMongo idAnn ''2024-03-01'' ?b exStore))) idT1 =
        Some (report\<lparr>assignedUser := [], assignedUserName := ''unassigned''\<rparr>)"
    by simp
  from w ok have 2: "status (fst (putUsers exMongo idAnn ''2024-03-01'' ?b exStore)) = 200"
    and 3: "\<exists>u. map_of (users (snd (putUsers exMongo idAnn ''2024-03-01'' ?b exStore))) idAnn = Some u
          \<and> pendingTasks u = []"
    by blast+
  from v p l m 1 2 3 show ?thesis by blast
qed

section \<open>Creating a Task for a User that does not exist\<close>




section \<open>Deleting a User\<close>

text \<open>
  C7. The claim: deleting an existing User leaves every Task that named it with
  \<^verbatim>\<open>assignedUser = ""\<close> and \<^verbatim>\<open>assignedUserName = "unassigned"\<close>. The code: the request
  spells Ann's id in upper case. The id is valid and \<^verbatim>\<open>findById\<close> casts it and finds
  Ann, but the bulk update filters the Tasks by the string of the request, which is the
  \<^verbatim>\<open>assignedUser\<close> of no Task. The answer is 200, Ann is deleted, and the report still
  names her.
\<close>

theorem deleteUsers_skips_cascade:
  "isValidObjectId exMongo idANN \<and> castId exMongo idANN = Some idAnn
   \<and> map_of (users exStore) idAnn = Some ann
   \<and> map_of (tasks exStore) idT1 = Some report \<and> assignedUser report = idAnn
   \<and> fst (deleteUsers exMongo idANN exStore) = reply 200 ''User deleted'' (Doc (idAnn, ann))
   \<and> map_of (users (snd (deleteUsers exMongo idANN exStore))) idAnn = None
   \<and> map_of (tasks (snd (deleteUsers exMongo idANN exStore))) idT1 = Some report
   \<and> ownerListsTask exStore
   \<and> \<not> ownerListsTask (snd (deleteUsers exMongo idANN exStore))"
  by code_simp

section \<open>The relationship after requests to the Users router\<close>

text \<open>
  C1. The claim: after every successful request, an assigned Task names an existing User
  that lists it, and every listed id is a Task that names the listing User. The code at
  \<^verbatim>\<open>POST /users\<close>: on the empty store, which is consistent, a User is created with a
  \<^verbatim>\<open>pendingTasks\<close> that holds an id. The request answers 201; the stored User lists
  the id, no Task has it, and the store is no longer consistent.
\<close>

theorem postUsers_breaks_consistency:
  "consistent emptyStore
   \<and> fst (run exMongo [PostUsers idCat ''2024-02-01''
          (userBody (Some ''Cat'') (Some ''cat@example.org'') (IdArray [idT3]))] emptyStore) = [201]
   \<and> map_of (tasks (snd (run exMongo [PostUsers idCat ''2024-02-01''
          (userBody (Some ''Cat'') (Some ''cat@example.org'') (IdArray [idT3]))] emptyStore))) idT3 = None
   \<and> listers (snd (run exMongo [PostUsers idCat ''2024-02-01''
          (userBody (Some ''Cat'') (Some ''cat@example.org'') (IdArray [idT3]))] emptyStore)) idT3 = [idCat]
   \<and> \<not> listedTaskOwned (snd (run exMongo [PostUsers idCat ''2024-02-01''
          (userBody (Some ''Cat'') (Some ''cat@example.org'') (IdArray [idT3]))] emptyStore))
   \<and> \<not> consistent (snd (run exMongo [PostUsers idCat ''2024-02-01''
          (userBody (Some ''Cat'') (Some ''cat@example.org'') (IdArray [idT3]))] emptyStore))"
  by code_simp

text \<open>
  C2. The claim: after a successful sequence of requests no Task id is in the list of
  more than one User. The code: Ann and Bob are created, a Task is created for Ann, and
  Bob is replaced with a \<^verbatim>\<open>pendingTasks\<close> that holds the Task. All four requests
  succeed; the Task now names Bob, and both Ann and Bob list it.
\<close>

theorem putUsers_breaks_unique_ownership:
  "uniqueOwnership emptyStore
   \<and> fst (run exMongo
       [PostUsers idAnn ''2024-01-01'' (userBody (Some ''Ann'') (Some ''ann@example.org'') Missing),
        PostUsers idBob ''2024-01-02'' (userBody (Some ''Bob'') (Some ''bob@example.org'') Missing),
        PostTasks idT1 ''2024-01-03'' (taskBody (Some ''report'') (Some idAnn) (Some ''Ann'')),
        PutUsers idBob ''2024-01-04''
          (userBody (Some ''Bob'') (Some ''bob@example.org'') (IdArray [idT1]))]
       emptyStore) = [201, 201, 201, 200]
   \<and> listers (snd (run exMongo
       [PostUsers idAnn ''2024-01-01'' (userBody (Some ''Ann'') (Some ''ann@example.org'') Missing),
        PostUsers idBob ''2024-01-02'' (userBody (Some ''Bob'') (Some ''bob@example.org'') Missing),
        PostTasks idT1 ''2024-01-03'' (taskBody (Some ''report'') (Some idAnn) (Some ''Ann'')),
        PutUsers idBob ''2024-01-04''
          (userBody (Some ''Bob'') (Some ''bob@example.org'') (IdArray [idT1]))]
       emptyStore)) idT1 = [idAnn, idBob]
   \<and> \<not> uniqueOwnership (snd (run exMongo
       [PostUsers idAnn ''2024-01-01'' (userBody (Some ''Ann'') (Some ''ann@example.org'') Missing),
        PostUsers idBob ''2024-01-02'' (userBody (Some ''Bob'') (Some ''bob@example.org'') Missing),
        PostTasks idT1 ''2024-01-03'' (taskBody (Some ''report'') (Some idAnn) (Some ''Ann'')),
        PutUsers idBob ''2024-01-04''
          (userBody (Some ''Bob'') (Some ''bob@example.org'') (IdArray [idT1]))]
       emptyStore))"
  by code_simp

section \<open>Reassigning a Task to a User that does not exist\<close>

text \<open>
  C3. The claim: \<^verbatim>\<open>PUT /tasks/:id\<close> that moves a Task to an id no User has answers
  400 with no store mutation, the old owner still listing the Task. The code: Ann owns
  the report; the request to give it to Cat, who does not exist, answers 400
  \<^verbatim>\<open>Assigned user does not exist\<close> and leaves the Tasks as they were, but Ann's
  \<^verbatim>\<open>pendingTasks\<close> has already lost the report.
\<close>

theorem putTasks_pulls_before_rejecting:
  "isValidObjectId exMongo idT1 \<and> castId exMongo idT1 = Some idT1
   \<and> map_of (tasks exStore) idT1 = Some report \<and> assignedUser report = idAnn
   \<and> map_of (users exStore) idAnn = Some ann \<and> idT1 \<in> set (pendingTasks ann)
   \<and> castId exMongo idCat = Some idCat \<and> map_of (users exStore) idCat = None
   \<and> fst (putTasks exMongo idT1 ''2024-03-01''
        (taskBody (Some ''report'') (Some idCat) (Some ''Cat'')) exStore) =
        reply 400 ''Invalid assigned user'' (Error ''Assigned user does not exist'')
   \<and> tasks (snd (putTasks exMongo idT1 ''2024-03-01''
        (taskBody (Some ''report'') (Some idCat) (Some ''Cat'')) exStore)) = tasks exStore
   \<and> map_of (users (snd (putTasks exMongo idT1 ''2024-03-01''
        (taskBody (Some ''report'') (Some idCat) (Some ''Cat'')) exStore))) idAnn =
        Some (ann\<lparr>pendingTasks := []\<rparr>)
   \<and> snd (putTasks exMongo idT1 ''2024-03-01''
        (taskBody (Some ''report'') (Some idCat) (Some ''Cat'')) exStore) \<noteq> exStore"
  by code_simp

section \<open>Creating a User without a required field\<close>

text \<open>
  C5. The claim: a create request without a required field is answered 400. The code at
  \<^verbatim>\<open>POST /users\<close>: no request is ever answered 400; a body without a name is refused
  by the schema when the document is saved, and the \<^verbatim>\<open>catch\<close> answers 500. The store
  is unchanged.
\<close>

theorem postUsers_missing_name_500:
  "status (fst (postUsers newId now b s)) \<noteq> 400
   \<and> ureq_name (userBody None (Some ''cat@example.org'') Missing) = None
   \<and> postUsers idCat ''2024-02-01'' (userBody None (Some ''cat@example.org'') Missing) exStore =
       (reply 500 ''Failed to create user'' (Error ''Failed to create user''), exStore)"
proof -
  have "status (fst (postUsers newId now b s)) \<noteq> 400"
    by (simp add: postUsers_def Let_def split: option.splits)
  moreover have "ureq_name (userBody None (Some ''cat@example.org'') Missing) = None
   \<and> postUsers idCat ''2024-02-01'' (userBody None (Some ''cat@example.org'') Missing) exStore =
       (reply 500 ''Failed to create user'' (Error ''Failed to create user''), exStore)"
    by code_simp
  ultimately show ?thesis by blast
qed

section \<open>Tasks written without an owner\<close>

text \<open>
  C4, as stated, fails: the example store has the shape of I2; a Task is created with
  no \<^verbatim>\<open>assignedUser\<close> and \<^verbatim>\<open>assignedUserName = "Bob"\<close>. The request answers 201 and
  the stored Task is unassigned with the name \<^verbatim>\<open>Bob\<close>.
\<close>

theorem postTasks_keeps_payload_name:
  "unassignedShape exStore
   \<and> status (fst (postTasks exMongo idT3 ''2024-02-01''
        (taskBody (Some ''notes'') None (Some ''Bob'')) exStore)) = 201
   \<and> map_of (tasks (snd (postTasks exMongo idT3 ''2024-02-01''
        (taskBody (Some ''notes'') None (Some ''Bob'')) exStore))) idT3 =
       Some \<lparr>task_name = ''notes'', description = [], deadline = ''2024-09-01'',
             completed = ''false'', assignedUser = [], assignedUserName = ''Bob'',
             task_dateCreated = ''2024-02-01''\<rparr>
   \<and> \<not> unassignedShape (snd (postTasks exMongo idT3 ''2024-02-01''
        (taskBody (Some ''notes'') None (Some ''Bob'')) exStore))"
  by code_simp

text \<open>With unique ids, an entry after \<^verbatim>\<open>findByIdAndUpdate\<close> comes from an entry before.\<close>

lemma map_entry_mem:
  "distinct (map fst xs) \<Longrightarrow> (a, b) \<in> set (AList.map_entry k f xs) \<Longrightarrow>
   \<exists>v. (a, v) \<in> set xs \<and> b = (if a = k then f v else v)"
proof (induction xs)
  case Nil
  then show ?case by simp
next
  case (Cons p ps)
  show ?case
  proof (cases "fst p = k")
    case True
    with Cons.prems show ?thesis by (cases p) force
  next
    case False
    with Cons show ?thesis by (cases p) (fastforce split: if_splits)
  qed
qed

lemma listedTaskOwnedD:
  "listedTaskOwned s \<Longrightarrow> (uid, u) \<in> set (users s) \<Longrightarrow> tk \<in> set (pendingTasks u) \<Longrightarrow>
   \<exists>t. map_of (tasks s) tk = Some t \<and> assignedUser t = uid"
  by (force simp: listedTaskOwned_def list_all_iff split: option.splits)

lemma canonicalUsersD:
  "canonicalUsers M s \<Longrightarrow> (uid, u) \<in> set (users s) \<Longrightarrow> castId M uid = Some uid"
  by (auto simp: canonicalUsers_def list_all_iff)

lemma newTask_owner:
  "newTask M now b = Some t \<Longrightarrow>
   assignedUser t = orElse (req_assignedUser b) []
   \<and> assignedUserName t = orElse (req_assignedUserName b) ''unassigned''"
  by (auto simp: newTask_def split: if_splits option.splits)

lemma replacementTask_owner:
  "replacementTask M now b = Some t \<Longrightarrow>
   assignedUser t = orElse (req_assignedUser b) []
   \<and> assignedUserName t = orElse (req_assignedUserName b) ''unassigned''"
  by (auto simp: replacementTask_def split: if_splits option.splits)

lemma saveTask_201:
  assumes "status (fst (saveTask M newId now b s)) = 201"
  shows "\<exists>t. newTask M now b = Some t \<and> map_of (tasks s) newId = None
           \<and> snd (saveTask M newId now b s) = s\<lparr>tasks := tasks s @ [(newId, t)]\<rparr>"
  using assms by (auto simp: saveTask_def insertDoc_def split: option.splits if_splits)

lemma postTasks_unassigned:
  assumes "\<not> truthy (req_assignedUser b)"
    and "status (fst (postTasks M newId now b s)) = 201"
  shows "\<exists>t. newTask M now b = Some t \<and> map_of (tasks s) newId = None
           \<and> snd (postTasks M newId now b s) = s\<lparr>tasks := tasks s @ [(newId, t)]\<rparr>"
proof -
  from assms have eq: "postTasks M newId now b s = saveTask M newId now b s"
    by (auto simp: postTasks_def split: if_splits)
  with assms(2) saveTask_201 [of M newId now b s] show ?thesis by simp
qed

lemma updateTask_200:
  assumes "status (fst (updateTask M k now b s)) = 200"
  shows "\<exists>r. replacementTask M now b = Some r
           \<and> snd (updateTask M k now b s) = s\<lparr>tasks := AList.map_entry k (\<lambda>_. r) (tasks s)\<rparr>"
  using assms by (auto simp: updateTask_def split: option.splits)

lemma putTasks_unassigned:
  assumes "\<not> truthy (req_assignedUser b)"
    and "status (fst (putTasks M tid now b s)) = 200"
  shows "\<exists>k existingTask r.
           castId M tid = Some k \<and> map_of (tasks s) k = Some existingTask
         \<and> replacementTask M now b = Some r
         \<and> (assignedUser existingTask \<noteq> [] \<longrightarrow> castId M (assignedUser existingTask) \<noteq> None)
         \<and> snd (putTasks M tid now b s) =
             \<lparr>users = (if assignedUser existingTask \<noteq> []
                       then AList.map_entry (the (castId M (assignedUser existingTask)))
                              (pull tid) (users s)
                       else users s),
              tasks = AList.map_entry k (\<lambda>_. r) (tasks s)\<rparr>"
proof -
  from assms(2) have v: "isValidObjectId M tid"
    by (auto simp: putTasks_def split: if_splits)
  from assms(2) v obtain k where k: "castId M tid = Some k"
    by (auto simp: putTasks_def split: option.splits)
  from assms(2) v k obtain ex where ex: "map_of (tasks s) k = Some ex"
    by (auto simp: putTasks_def split: option.splits)
  show ?thesis
  proof (cases "assignedUser ex = []")
    case True
    with assms(1) v k ex have eq: "putTasks M tid now b s = updateTask M k now b s"
      by (auto simp: putTasks_def truthy_def split: option.splits)
    from updateTask_200 [of M k now b s] assms(2) eq obtain r where
      "replacementTask M now b = Some r"
      "snd (putTasks M tid now b s) = s\<lparr>tasks := AList.map_entry k (\<lambda>_. r) (tasks s)\<rparr>"
      by auto
    with k ex True show ?thesis by auto
  next
    case False
    with assms(1) have ne: "Some (assignedUser ex) \<noteq> req_assignedUser b"
      by (auto simp: truthy_def split: option.splits)
    from assms(2) v k ex ne False obtain ow where ow: "castId M (assignedUser ex) = Some ow"
      by (auto simp: putTasks_def pullFrom_def split: option.splits)
    let ?s1 = "s\<lparr>users := AList.map_entry ow (pull tid) (users s)\<rparr>"
    from assms(1) v k ex ne False ow have eq: "putTasks M tid now b s = updateTask M k now b ?s1"
      by (simp add: putTasks_def pullFrom_def)
    from updateTask_200 [of M k now b ?s1] assms(2) eq obtain r where
      "replacementTask M now b = Some r"
      "snd (putTasks M tid now b s) = ?s1\<lparr>tasks := AList.map_entry k (\<lambda>_. r) (tasks ?s1)\<rparr>"
      by auto
    with k ex False ow show ?thesis by auto
  qed
qed

text \<open>
  C4, amended. For a payload whose \<^verbatim>\<open>assignedUser\<close> is empty or absent: a Task created
  by \<^verbatim>\<open>POST /tasks\<close> (201) or replaced by \<^verbatim>\<open>PUT /tasks/:id\<close> (200) is stored with
  \<^verbatim>\<open>assignedUser = ""\<close>; its \<^verbatim>\<open>assignedUserName\<close> is \<^verbatim>\<open>unassigned\<close> when the payload
  gives none or an empty one, and the payload's otherwise. If, before the request, every
  listed id was a Task naming the listing User (and, for the replacement, ids were
  unique and the request spells the Task's id, as the store spells the Users' ids, in
  the text it is cast to), then afterwards no User lists the Task.
\<close>

theorem unassigned_payload_shape:
  assumes "\<not> truthy (req_assignedUser b)"
  shows "(status (fst (postTasks M newId now b s)) = 201 \<longrightarrow>
            (\<exists>t. map_of (tasks (snd (postTasks M newId now b s))) newId = Some t
                \<and> assignedUser t = []
                \<and> (\<not> truthy (req_assignedUserName b) \<longrightarrow> assignedUserName t = ''unassigned'')
                \<and> (\<forall>n. req_assignedUserName b = Some n \<and> n \<noteq> [] \<longrightarrow> assignedUserName t = n))
          \<and> (listedTaskOwned s \<longrightarrow> unlisted (snd (postTasks M newId now b s)) newId))
       \<and> (status (fst (putTasks M tid now b s)) = 200 \<longrightarrow>
            (\<exists>k t. castId M tid = Some k
                \<and> map_of (tasks (snd (putTasks M tid now b s))) k = Some t
                \<and> assignedUser t = []
                \<and> (\<not> truthy (req_assignedUserName b) \<longrightarrow> assignedUserName t = ''unassigned'')
                \<and> (\<forall>n. req_assignedUserName b = Some n \<and> n \<noteq> [] \<longrightarrow> assignedUserName t = n))
          \<and> (listedTaskOwned s \<and> uniqueIds s \<and> canonicalUsers M s \<and> castId M tid = Some tid \<longrightarrow>
               unlisted (snd (putTasks M tid now b s)) tid))"
proof (intro conjI impI)
  assume ok: "status (fst (postTasks M newId now b s)) = 201"
  from postTasks_unassigned [OF assms ok] obtain t where
    t: "newTask M now b = Some t" and fresh: "map_of (tasks s) newId = None"
    and st: "snd (postTasks M newId now b s) = s\<lparr>tasks := tasks s @ [(newId, t)]\<rparr>"
    by blast
  show "\<exists>t. map_of (tasks (snd (postTasks M newId now b s))) newId = Some t
                \<and> assignedUser t = []
                \<and> (\<not> truthy (req_assignedUserName b) \<longrightarrow> assignedUserName t = ''unassigned'')
                \<and> (\<forall>n. req_assignedUserName b = Some n \<and> n \<noteq> [] \<longrightarrow> assignedUserName t = n)"
    using newTask_owner [OF t] fresh assms
    by (simp add: st map_of_append map_add_def orElse_falsy orElse_truthy)
  assume inv: "listedTaskOwned s"
  show "unlisted (snd (postTasks M newId now b s)) newId"
    unfolding unlisted_def list_all_iff
  proof (clarify)
    fix uid u assume m: "(uid, u) \<in> set (users (snd (postTasks M newId now b s)))"
      and c: "newId \<in> set (pendingTasks u)"
    from m st have "(uid, u) \<in> set (users s)" by simp
    from listedTaskOwnedD [OF inv this c] fresh show False by simp
  qed
next
  assume ok: "status (fst (putTasks M tid now b s)) = 200"
  from putTasks_unassigned [OF assms ok] obtain k ex r where
    k: "castId M tid = Some k" and ex: "map_of (tasks s) k = Some ex"
    and r: "replacementTask M now b = Some r"
    and o: "assignedUser ex \<noteq> [] \<longrightarrow> castId M (assignedUser ex) \<noteq> None"
    and st: "snd (putTasks M tid now b s) =
             \<lparr>users = (if assignedUser ex \<noteq> []
                       then AList.map_entry (the (castId M (assignedUser ex))) (pull tid) (users s)
                       else users s),
              tasks = AList.map_entry k (\<lambda>_. r) (tasks s)\<rparr>"
    by blast
  show "\<exists>k t. castId M tid = Some k
                \<and> map_of (tasks (snd (putTasks M tid now b s))) k = Some t
                \<and> assignedUser t = []
                \<and> (\<not> truthy (req_assignedUserName b) \<longrightarrow> assignedUserName t = ''unassigned'')
                \<and> (\<forall>n. req_assignedUserName b = Some n \<and> n \<noteq> [] \<longrightarrow> assignedUserName t = n)"
    using replacementTask_owner [OF r] k ex assms
    by (simp add: st AList.map_of_map_entry orElse_falsy orElse_truthy)
  assume "listedTaskOwned s \<and> uniqueIds s \<and> canonicalUsers M s \<and> castId M tid = Some tid"
  then have inv: "listedTaskOwned s" and d: "distinct (map fst (users s))"
    and ne: "[] \<notin> fst ` set (users s)" and can: "canonicalUsers M s"
    and own: "castId M tid = Some tid"
    by (auto simp: uniqueIds_def)
  from own k have kt: "k = tid" by simp
  show "unlisted (snd (putTasks M tid now b s)) tid"
    unfolding unlisted_def list_all_iff
  proof (clarify)
    fix uid u assume m: "(uid, u) \<in> set (users (snd (putTasks M tid now b s)))"
      and c: "tid \<in> set (pendingTasks u)"
    show False
    proof (cases "assignedUser ex = []")
      case True
      with m st have mem: "(uid, u) \<in> set (users s)" by simp
      from listedTaskOwnedD [OF inv mem c] ex kt True have "uid = []" by simp
      with mem ne show False by force
    next
      case False
      with o obtain ow where ow: "castId M (assignedUser ex) = Some ow" by auto
      with False m st have "(uid, u) \<in> set (AList.map_entry ow (pull tid) (users s))"
        by simp
      from map_entry_mem [OF d this] obtain v where
        mem: "(uid, v) \<in> set (users s)" and
        u: "u = (if uid = ow then pull tid v else v)"
        by blast
      show False
      proof (cases "uid = ow")
        case True
        with u c show False by (simp add: pull_def)
      next
        case neq: False
        with u c have "tid \<in> set (pendingTasks v)" by simp
        from listedTaskOwnedD [OF inv mem this] ex kt have "assignedUser ex = uid" by simp
        moreover from canonicalUsersD [OF can mem] have "castId M uid = Some uid" .
        ultimately have "ow = uid" using ow by simp
        with neq show False by simp
      qed
    qed
  qed
qed

text \<open>
  A Task created without an owner under the name \<^verbatim>\<open>Bob\<close>, and Ann's report replaced
  by a payload without an owner.
\<close>

theorem unassigned_payload_shape_witness:
  "\<not> truthy (req_assignedUser (taskBody (Some ''notes'') None (Some ''Bob'')))
   \<and> status (fst (postTasks exMongo idT3 ''2024-02-01''
        (taskBody (Some ''notes'') None (Some ''Bob'')) exStore)) = 201
   \<and> listedTaskOwned exStore \<and> uniqueIds exStore \<and> canonicalUsers exMongo exStore
   \<and> castId exMongo idT1 = Some idT1
   \<and> (\<exists>t. map_of (tasks (snd (postTasks exMongo idT3 ''2024-02-01''
              (taskBody (Some ''notes'') None (Some ''Bob'')) exStore))) idT3 = Some t
          \<and> assignedUser t = [] \<and> assignedUserName t = ''Bob'')
   \<and> unlisted (snd (postTasks exMongo idT3 ''2024-02-01''
        (taskBody (Some ''notes'') None (Some ''Bob'')) exStore)) idT3
   \<and> \<not> truthy (req_assignedUser (taskBody (Some ''report'') None None))
   \<and> status (fst (putTasks exMongo idT1 ''2024-03-01''
        (taskBody (Some ''report'') None None) exStore)) = 200
   \<and> (\<exists>t. map_of (tasks (snd (putTasks exMongo idT1 ''2024-03-01''
              (taskBody (Some ''report'') None None) exStore))) idT1 = Some t
          \<and> assignedUser t = [] \<and> assignedUserName t = ''unassigned'')
   \<and> unlisted (snd (putTasks exMongo idT1 ''2024-03-01''
        (taskBody (Some ''report'') None None) exStore)) idT1"
proof -
  let ?b = "taskBody (Some ''notes'') None (Some ''Bob'')"
  let ?c = "taskBody (Some ''report'') None None"
  have f: "\<not> truthy (req_assignedUser ?b)" "\<not> truthy (req_assignedUser ?c)"
    by code_simp+
  have ok: "status (fst (postTasks exMongo idT3 ''2024-02-01'' ?b exStore)) = 201"
    "status (fst (putTasks exMongo idT1 ''2024-03-01'' ?c exStore)) = 200"
    by code_simp+
  have inv: "listedTaskOwned exStore" "uniqueIds exStore" "canonicalUsers exMongo exStore"
    "castId exMongo idT1 = Some idT1"
    by code_simp+
  have nm: "req_assignedUserName ?b = Some ''Bob'' \<and> ''Bob'' \<noteq> []"
    "\<not> truthy (req_assignedUserName ?c)"
    by code_simp+
  note p = unassigned_payload_shape
    [where b = ?b and M = exMongo and newId = idT3 and now = "''2024-02-01''" and s = exStore,
     OF f(1)]
  note q = unassigned_payload_shape
    [where b = ?c and M = exMongo and tid = idT1 and now = "''2024-03-01''" and s = exStore,
     OF f(2)]
  from p ok(1) inv(1) nm(1)
  have 1: "\<exists>t. map_of (tasks (snd (postTasks exMongo idT3 ''2024-02-01'' ?b exStore))) idT3 = Some t
          \<and> assignedUser t = [] \<and> assignedUserName t = ''Bob''"
    and 2: "unlisted (snd (postTasks exMongo idT3 ''2024-02-01'' ?b exStore)) idT3"
    by blast+
  from q ok(2) nm(2) inv(4)
  have "\<exists>k t. Some idT1 = Some k
          \<and> map_of (tasks (snd (putTasks exMongo idT1 ''2024-03-01'' ?c exStore))) k = Some t
          \<and> assignedUser t = [] \<and> assignedUserName t = ''unassigned''"
    by (metis (no_types, lifting))
  then have 3: "\<exists>t. map_of (tasks (snd (putTasks exMongo idT1 ''2024-03-01'' ?c exStore))) idT1 = Some t
          \<and> assignedUser t = [] \<and> assignedUserName t = ''unassigned''"
    by auto
  from q ok(2) inv
  have 4: "unlisted (snd (putTasks exMongo idT1 ''2024-03-01'' ?c exStore)) idT1"
    by blast
  from f ok inv 1 2 3 4 show ?thesis by blast
qed

section \<open>The default limit of the list endpoints\<close>








lemma length_selected [simp]: "length (selected E d xs) = length xs"
  by (simp add: selected_def split: option.splits)

lemma stages_limit [simp]:
  "selected E (d\<lparr>d_limit := l\<rparr>) xs = selected E d xs"
  "sorted_skipped E (d\<lparr>d_limit := l\<rparr>) xs = sorted_skipped E d xs"
  "matching E (d\<lparr>d_limit := l\<rparr>) xs = matching E d xs"
  by (simp_all add: selected_def sorted_skipped_def matching_def)





end
